theory Spec2Isabelle
  imports Main "HOL-Library.Word"
begin

section \<open>Errors\<close>

text \<open>
  Go error values. \<open>ErrFilesStorage\<close> is the one error \<open>New\<close> builds itself
  (\<open>errors.New("unable to initialize the files storage")\<close>); \<open>ErrDuplicateKey\<close> is what
  the database answers to an INSERT whose id is already a row of a table with unique ids;
  every other error is handed back from a collaborator unchanged.
\<close>

datatype error =
    ErrDuplicateKey
  | ErrFilesStorage
  | ErrExternal string

section \<open>The settings store (services/store/sqlstore/system.go)\<close>

text \<open>
  The store handle with the database behind it. \<open>tables\<close> gives the rows \<open>(id, value)\<close> of
  each table in the order a SELECT yields them. The schema of the settings table is not part
  of system.go, so whether the table rejects a second row with the same id is the field
  \<open>unique_ids\<close>. The three fault fields are the errors the driver answers with: to the
  SELECT (\<open>query.Query()\<close>), to \<open>rows.Scan\<close> at the i-th row, and to the INSERT
  (\<open>query.Exec()\<close>) for a reason other than the key.
\<close>

record SQLStore =
  tablePrefix :: string
  tables :: "string \<Rightarrow> (string \<times> string) list"
  unique_ids :: bool
  query_fault :: "error option"
  scan_fault :: "nat \<Rightarrow> error option"
  exec_fault :: "error option"

definition settings_table :: "SQLStore \<Rightarrow> string" where
  "settings_table s = tablePrefix s @ ''system_settings''"

text \<open>\<open>Select("*").From(t).Query()\<close>: the error, or the rows of the table.\<close>

definition Query :: "SQLStore \<Rightarrow> string \<Rightarrow> error + (string \<times> string) list" where
  "Query s t = (case query_fault s of Some err \<Rightarrow> Inl err | None \<Rightarrow> Inr (tables s t))"

text \<open>\<open>rows.Scan(&id, &value)\<close> at the i-th row of the result.\<close>

definition Scan :: "SQLStore \<Rightarrow> nat \<Rightarrow> string \<times> string \<Rightarrow> error + string \<times> string" where
  "Scan s i r = (case scan_fault s i of Some err \<Rightarrow> Inl err | None \<Rightarrow> Inr r)"

text \<open>
  The loop \<open>for rows.Next() { ... results[id] = value }\<close> of GetSystemSettings, from the
  i-th row on: a failed scan returns \<open>nil, err\<close> at once, a scanned row overwrites its key.
  \<open>rows.Next()\<close> returning false is the end of the list; the source does not look at
  \<open>rows.Err()\<close> after the loop, so an iteration that the driver cuts short is a shorter list.
\<close>

fun scan_rows ::
  "SQLStore \<Rightarrow> nat \<Rightarrow> (string \<times> string) list \<Rightarrow> (string \<rightharpoonup> string) \<Rightarrow> error + (string \<rightharpoonup> string)"
where
  "scan_rows s i [] results = Inr results"
| "scan_rows s i (r # rows) results =
     (case Scan s i r of
        Inl err \<Rightarrow> Inl err
      | Inr (k, v) \<Rightarrow> scan_rows s (Suc i) rows (results(k \<mapsto> v)))"

text \<open>
  GetSystemSettings returns \<open>(nil, err)\<close> or \<open>(results, nil)\<close> and nothing else, which is
  the sum: \<open>Inl err\<close> is the nil mapping with the error, \<open>Inr results\<close> the mapping (made by
  \<open>map[string]string{}\<close>, so never nil) with a nil error.
\<close>

definition GetSystemSettings :: "SQLStore \<Rightarrow> error + (string \<rightharpoonup> string)" where
  "GetSystemSettings s =
     (case Query s (settings_table s) of
        Inl err \<Rightarrow> Inl err
      | Inr rows \<Rightarrow> scan_rows s 0 rows Map.empty)"

text \<open>
  \<open>Insert(t).Columns("id", "value").Values(k, v).Exec()\<close>: a plain INSERT, with no clause
  for a key that is already there. The database adds the row, unless the driver fails or
  the table has unique ids and \<open>k\<close> is one of them.
\<close>

definition Exec_insert :: "SQLStore \<Rightarrow> string \<Rightarrow> string \<Rightarrow> string \<Rightarrow> error + SQLStore" where
  "Exec_insert s t k v =
     (case exec_fault s of
        Some err \<Rightarrow> Inl err
      | None \<Rightarrow>
          if unique_ids s \<and> k \<in> fst ` set (tables s t) then Inl ErrDuplicateKey
          else Inr (s\<lparr>tables := (tables s)(t := tables s t @ [(k, v)])\<rparr>))"

definition SetSystemSetting :: "SQLStore \<Rightarrow> string \<Rightarrow> string \<Rightarrow> error option \<times> SQLStore" where
  "SetSystemSetting s k v =
     (case Exec_insert s (settings_table s) k v of
        Inl err \<Rightarrow> (Some err, s)
      | Inr s' \<Rightarrow> (None, s'))"

text \<open>A store with no table rows and a driver that never fails.\<close>

definition empty_store :: "bool \<Rightarrow> SQLStore" where
  "empty_store u =
     \<lparr>tablePrefix = '''', tables = (\<lambda>t. []), unique_ids = u,
      query_fault = None, scan_fault = (\<lambda>i. None), exec_fault = None\<rparr>"

section \<open>The server (server/server.go, server/initHandlers.go)\<close>

subsection \<open>Configuration and the values the server holds\<close>

text \<open>
  The fields of \<open>config.Configuration\<close> that server.go and initHandlers.go read.
  \<open>SessionExpireTime\<close> is an int64: it is compared with and assigned to the int64
  \<open>secondsAgo\<close>.
\<close>

record Configuration =
  ServerRoot :: string
  Port :: int
  DBType :: string
  DBConfigString :: string
  DBTablePrefix :: string
  UseSSL :: bool
  SecureCookie :: bool
  WebPath :: string
  FilesPath :: string
  Telemetry :: bool
  SessionExpireTime :: "64 word"
  LocalOnly :: bool
  EnableLocalMode :: bool
  LocalModeSocketLocation :: string
  AuthMode :: string
  MattermostURL :: string
  MattermostClientID :: string
  MattermostClientSecret :: string

text \<open>\<open>einterfaces.MattermostAuthParameters\<close>, as initHandlers fills it.\<close>

record MattermostAuthParameters =
  param_ServerRoot :: string
  param_MattermostURL :: string
  param_ClientID :: string
  param_ClientSecret :: string
  param_UseSecureCookie :: bool

text \<open>The object an external-auth implementation hands back; the server only passes it on.\<close>

datatype AuthHandler = AuthHandler string

text \<open>What \<open>AddRoutes\<close> and \<open>RegisterAdminRoutes\<close> put on a router.\<close>

datatype RouteProvider =
    WsServerRoutes
  | APIRoutes
  | AdminRoutes
  | AuthHandlerRoutes AuthHandler

record WebServer =
  rootPath :: string
  serverRoot :: string
  port :: int
  ssl :: bool
  localOnly :: bool
  routes :: "RouteProvider list"

record API =
  api_singleUserToken :: string
  api_authMode :: string
  WorkspaceAuthenticator :: "AuthHandler option"

datatype tracker_value = BoolV bool | StrV string | IntV int

record TelemetryService =
  telemetryID :: string
  trackers :: "string \<rightharpoonup> (string \<times> tracker_value) list"

subsection \<open>The world around the server\<close>

text \<open>
  Every call the server makes on a collaborator is an event of the trace, in the order of
  the calls.
\<close>

datatype event =
    LogPrint string
  | LoggerInfo string
  | LoggerError string
  | CallGetRootWorkspace
  | CallUuidNew
  | CallSetSystemSetting string string
  | CallMattermostAuth
  | CallWebServerStart
  | CallUnlink string
  | CallListen string
  | CallChmod string
  | GoServe
  | CallCreateRecurringTask string
  | CallRunTelemetryJob int
  | CallCleanUpSessions "64 word"
  | CallWebServerShutdown
  | CallLocalServerClose
  | CallTaskCancel string
  | CallTelemetryShutdown
  | CallStoreShutdown

text \<open>
  The state outside the server value: the database behind the store handle (shared by
  reference with the application layer), how many identifiers \<open>uuid.New()\<close> has handed
  out, and the trace. The settings table changes through SetSystemSetting only: a call on a
  collaborator whose code is not in these files (the application facade, the web server,
  the telemetry service, an external-auth implementation) adds its event to the trace and
  leaves the rest of the world as it is.
\<close>

record world =
  db :: SQLStore
  uuids_drawn :: nat
  trace :: "event list"

text \<open>
  Constants of packages that are not part of these files (\<open>model\<close>, \<open>runtime\<close>,
  \<open>config\<close>), as the telemetry trackers read them.
\<close>

record build_constants =
  CurrentVersion :: string
  BuildNumber :: string
  BuildHash :: string
  Edition :: string
  GOOS :: string
  DefaultServerRoot :: string
  DefaultPort :: int

text \<open>
  What the collaborators answer in one run: for each fallible call its error (or result),
  the identifiers \<open>uuid.New()\<close> hands out in order, the registered external-auth
  implementation (the package variable \<open>mattermostAuth\<close>, nil when none is registered),
  and the clock. \<open>webServer_bind\<close> is how binding the public listener ends inside
  \<open>web.Server.Start\<close>; Start calls that method as a statement, so no definition below
  reads the field.
\<close>

record env =
  build :: build_constants
  zap_NewProduction :: "error option"
  sqlstore_New :: "error option"
  NewFileBackend :: "error option"
  GetRootWorkspace :: "error option"
  GetRegisteredUserCount :: "error + int"
  GetDailyActiveUsers :: "error + int"
  GetWeeklyActiveUsers :: "error + int"
  GetMonthlyActiveUsers :: "error + int"
  uuid_New :: "nat \<Rightarrow> string"
  NewAPI_authenticator :: "AuthHandler option"
  mattermostAuth :: "(MattermostAuthParameters \<Rightarrow> AuthHandler) option"
  webServer_bind :: "error option"
  net_Listen :: "error option"
  os_Chmod :: "error option"
  CleanUpSessions :: "error option"
  time_Now_millis :: int
  webServer_Shutdown :: "error option"
  store_Shutdown :: "error option"

definition emit :: "event \<Rightarrow> world \<Rightarrow> world" where
  "emit ev w = w\<lparr>trace := trace w @ [ev]\<rparr>"

text \<open>\<open>uuid.New().String()\<close>: the next identifier.\<close>

definition uuid_New_String :: "env \<Rightarrow> world \<Rightarrow> string \<times> world" where
  "uuid_New_String e w =
     (uuid_New e (uuids_drawn w), emit CallUuidNew (w\<lparr>uuids_drawn := Suc (uuids_drawn w)\<rparr>))"

subsection \<open>The server value\<close>

record ScheduledTask =
  task_name :: string
  task_interval_seconds :: nat
  task_action :: "env \<Rightarrow> world \<Rightarrow> world"

record HttpServer =
  http_Handler :: "RouteProvider list"

text \<open>
  The fields of \<open>Server\<close> that carry state of their own. \<open>store\<close> is the database of
  the world; \<open>wsServer\<close>, \<open>filesBackend\<close>, \<open>logger\<close> and \<open>appBuilder\<close> are handles
  that New always sets and nothing here inspects. The two handles that stay nil until Start
  are options.
\<close>

record Server =
  config :: Configuration
  webServer :: WebServer
  telemetry :: TelemetryService
  cleanUpSessionsTask :: "ScheduledTask option"
  localRouter :: "RouteProvider list"
  localModeServer :: "HttpServer option"
  api :: API

text \<open>
  Modelled from the spec: the constructors of the packages \<open>web\<close>, \<open>api\<close> and
  \<open>telemetry\<close>, whose code is not in these files. Each is the record of what the server
  passes it; \<open>AddRoutes\<close> registers one more route provider, \<open>RegisterTracker\<close> binds a
  name to a collector and overwrites an earlier one of the same name.
\<close>

definition web_NewServer :: "Configuration \<Rightarrow> WebServer" where
  "web_NewServer cfg =
     \<lparr>rootPath = WebPath cfg, serverRoot = ServerRoot cfg, port = Port cfg, ssl = UseSSL cfg,
      localOnly = LocalOnly cfg, routes = []\<rparr>"

definition AddRoutes :: "WebServer \<Rightarrow> RouteProvider \<Rightarrow> WebServer" where
  "AddRoutes ws rp = ws\<lparr>routes := routes ws @ [rp]\<rparr>"

definition NewAPI :: "env \<Rightarrow> string \<Rightarrow> string \<Rightarrow> API" where
  "NewAPI e singleUserToken authMode =
     \<lparr>api_singleUserToken = singleUserToken, api_authMode = authMode,
      WorkspaceAuthenticator = NewAPI_authenticator e\<rparr>"

definition telemetry_New :: "string \<Rightarrow> TelemetryService" where
  "telemetry_New tid = \<lparr>telemetryID = tid, trackers = Map.empty\<rparr>"

definition RegisterTracker ::
  "TelemetryService \<Rightarrow> string \<Rightarrow> (string \<times> tracker_value) list \<Rightarrow> TelemetryService" where
  "RegisterTracker t name f = t\<lparr>trackers := (trackers t)(name \<mapsto> f)\<rparr>"

subsection \<open>initHandlers\<close>

text \<open>
  The guard is \<open>cfg.AuthMode == "mattermost" && mattermostAuth != nil\<close>; the inner case is
  its second conjunct, and gives the implementation its name in the branch.
\<close>

definition initHandlers :: "env \<Rightarrow> Server \<Rightarrow> world \<Rightarrow> Server \<times> world" where
  "initHandlers e s w =
     (let cfg = config s in
      if AuthMode cfg = ''mattermost'' then
        (case mattermostAuth e of
           None \<Rightarrow> (s, w)
         | Some newMattermostAuth \<Rightarrow>
             (let w1 = emit (LogPrint ''Using Mattermost Auth'') w;
                  params = \<lparr>param_ServerRoot = ServerRoot cfg,
                            param_MattermostURL = MattermostURL cfg,
                            param_ClientID = MattermostClientID cfg,
                            param_ClientSecret = MattermostClientSecret cfg,
                            param_UseSecureCookie = SecureCookie cfg\<rparr>;
                  mmauthHandler = newMattermostAuth params;
                  w2 = emit (LogPrint ''CREATING AUTH'') (emit CallMattermostAuth w1);
                  s1 = s\<lparr>webServer := AddRoutes (webServer s) (AuthHandlerRoutes mmauthHandler)\<rparr>;
                  w3 = emit (LogPrint ''ADDING ROUTES'') w2;
                  s2 = s1\<lparr>api := (api s1)\<lparr>WorkspaceAuthenticator := Some mmauthHandler\<rparr>\<rparr>;
                  w4 = emit (LogPrint ''SETTING THE AUTHENTICATOR'') w3
              in (s2, w4)))
      else (s, w))"

subsection \<open>New\<close>

text \<open>
  Lines 99 to 106 of New, the first-run telemetry identity: \<open>settings["TelemetryID"]\<close> is
  the empty string for a missing key; when it is empty, \<open>telemetryID\<close> is assigned a fresh
  identifier, and SetSystemSetting is called with the result of a second \<open>uuid.New()\<close>.
  The result is the error New returns, or the \<open>telemetryID\<close> it goes on with.
\<close>

definition init_telemetryID ::
  "env \<Rightarrow> (string \<rightharpoonup> string) \<Rightarrow> world \<Rightarrow> (error + string) \<times> world" where
  "init_telemetryID e settings w =
     (let telemetryID = (case settings ''TelemetryID'' of None \<Rightarrow> [] | Some v \<Rightarrow> v) in
      if length telemetryID = 0 then
        (case uuid_New_String e w of
           (telemetryID', w1) \<Rightarrow>
             (case uuid_New_String e w1 of
                (arg, w2) \<Rightarrow>
                  (let w3 = emit (CallSetSystemSetting ''TelemetryID'' arg) w2 in
                   case SetSystemSetting (db w3) ''TelemetryID'' arg of
                     (Some err, d) \<Rightarrow> (Inl err, w3\<lparr>db := d\<rparr>)
                   | (None, d) \<Rightarrow> (Inr telemetryID', w3\<lparr>db := d\<rparr>))))
      else (Inr telemetryID, w))"

text \<open>
  New, step by step in the order of the source. \<open>auth.New\<close>, \<open>ws.NewServer\<close>,
  \<open>webhook.NewClient\<close> and the closure \<open>appBuilder\<close> build handles and return no error,
  so they are no step of their own. \<open>appBuilder().GetRootWorkspace()\<close> is an expression
  statement: the call is made and what it returns (\<open>GetRootWorkspace e\<close>, its error) is
  dropped.
\<close>

definition New :: "env \<Rightarrow> Configuration \<Rightarrow> string \<Rightarrow> world \<Rightarrow> (error + Server) \<times> world" where
  "New e cfg singleUserToken w =
     (case zap_NewProduction e of
        Some err \<Rightarrow> (Inl err, w)
      | None \<Rightarrow>
     (case sqlstore_New e of
        Some err \<Rightarrow> (Inl err, emit (LogPrint ''Unable to start the database'') w)
      | None \<Rightarrow>
     (let w1 = w\<lparr>db := (db w)\<lparr>tablePrefix := DBTablePrefix cfg\<rparr>\<rparr> in
     (case NewFileBackend e of
        Some appErr \<Rightarrow>
          (Inl ErrFilesStorage, emit (LogPrint ''Unable to initialize the files storage'') w1)
      | None \<Rightarrow>
     (let api0 = NewAPI e singleUserToken (AuthMode cfg);
          localRouter0 = [AdminRoutes];
          w2 = emit CallGetRootWorkspace w1;
          webServer0 = AddRoutes (AddRoutes (web_NewServer cfg) WsServerRoutes) APIRoutes
      in
     (case GetSystemSettings (db w2) of
        Inl err \<Rightarrow> (Inl err, w2)
      | Inr settings \<Rightarrow>
     (case init_telemetryID e settings w2 of
        (Inl err, w3) \<Rightarrow> (Inl err, w3)
      | (Inr telemetryID0, w3) \<Rightarrow>
     (case GetRegisteredUserCount e of
        Inl err \<Rightarrow> (Inl err, w3)
      | Inr registeredUserCount \<Rightarrow>
     (case GetDailyActiveUsers e of
        Inl err \<Rightarrow> (Inl err, w3)
      | Inr dailyActiveUsers \<Rightarrow>
     (case GetWeeklyActiveUsers e of
        Inl err \<Rightarrow> (Inl err, w3)
      | Inr weeklyActiveUsers \<Rightarrow>
     (case GetMonthlyActiveUsers e of
        Inl err \<Rightarrow> (Inl err, w3)
      | Inr monthlyActiveUsers \<Rightarrow>
     (let t0 = telemetry_New telemetryID0;
          t1 = RegisterTracker t0 ''server''
                 [(''version'', StrV (CurrentVersion (build e))),
                  (''build_number'', StrV (BuildNumber (build e))),
                  (''build_hash'', StrV (BuildHash (build e))),
                  (''edition'', StrV (Edition (build e))),
                  (''operating_system'', StrV (GOOS (build e)))];
          t2 = RegisterTracker t1 ''config''
                 [(''serverRoot'', BoolV (ServerRoot cfg = DefaultServerRoot (build e))),
                  (''port'', BoolV (Port cfg = DefaultPort (build e))),
                  (''useSSL'', BoolV (UseSSL cfg)),
                  (''dbType'', StrV (DBType cfg)),
                  (''single_user'', BoolV (length singleUserToken > 0))];
          t3 = RegisterTracker t2 ''activity''
                 [(''registered_users'', IntV registeredUserCount),
                  (''daily_active_users'', IntV dailyActiveUsers),
                  (''weekly_active_users'', IntV weeklyActiveUsers),
                  (''monthly_active_users'', IntV monthlyActiveUsers)];
          server = \<lparr>config = cfg, webServer = webServer0, telemetry = t3,
                    cleanUpSessionsTask = None, localRouter = localRouter0,
                    localModeServer = None, api = api0\<rparr>
      in (case initHandlers e server w3 of
            (server', w4) \<Rightarrow> (Inr server', w4))))))))))))))"

subsection \<open>Start\<close>

text \<open>
  startLocalModeServer: the handle is set before anything can fail; \<open>syscall.Unlink\<close> is
  called for its effect only; a failed \<open>net.Listen\<close> and a failed \<open>os.Chmod\<close> each return
  their error; otherwise the server is served on a goroutine.
\<close>

definition startLocalModeServer :: "env \<Rightarrow> Server \<Rightarrow> world \<Rightarrow> error option \<times> Server \<times> world" where
  "startLocalModeServer e s w =
     (let s1 = s\<lparr>localModeServer := Some \<lparr>http_Handler = localRouter s\<rparr>\<rparr>;
          w1 = emit (CallUnlink (LocalModeSocketLocation (config s1))) w;
          socket = LocalModeSocketLocation (config s1);
          w2 = emit (CallListen socket) w1
      in case net_Listen e of
           Some err \<Rightarrow> (Some err, s1, w2)
         | None \<Rightarrow>
             (let w3 = emit (CallChmod socket) w2 in
              case os_Chmod e of
                Some err \<Rightarrow> (Some err, s1, w3)
              | None \<Rightarrow> (None, s1, emit GoServe w3)))"

text \<open>
  The action of the session-cleanup task, one tick: \<open>secondsAgo\<close> starts at
  \<open>int64(60 * 60 * 24 * 31)\<close> and is replaced by the configured expiry when it is less
  (a signed comparison); a failed CleanUpSessions is logged and nothing else.
\<close>

definition cleanUpSessions :: "Configuration \<Rightarrow> env \<Rightarrow> world \<Rightarrow> world" where
  "cleanUpSessions cfg e w =
     (let secondsAgo = (60 * 60 * 24 * 31 :: 64 word);
          secondsAgo' = (if secondsAgo <s SessionExpireTime cfg then SessionExpireTime cfg
                         else secondsAgo);
          w1 = emit (CallCleanUpSessions secondsAgo') w
      in case CleanUpSessions e of
           Some err \<Rightarrow> emit (LoggerError ''Unable to clean up the sessions'') w1
         | None \<Rightarrow> w1)"

text \<open>
  Modelled from the spec: \<open>scheduler.CreateRecurringTask(name, action, interval)\<close>, whose
  code is not in these files, gives the handle of a task that invokes \<open>action\<close> every
  \<open>interval\<close> (here in seconds).
\<close>

definition CreateRecurringTask ::
  "string \<Rightarrow> (env \<Rightarrow> world \<Rightarrow> world) \<Rightarrow> nat \<Rightarrow> ScheduledTask" where
  "CreateRecurringTask name action interval =
     \<lparr>task_name = name, task_interval_seconds = interval, task_action = action\<rparr>"

text \<open>
  Start. The closure of the task reads \<open>s.config\<close> at each tick; the configuration is
  never assigned after New, so the closure is the action at the server's configuration.
\<close>

definition Start :: "env \<Rightarrow> Server \<Rightarrow> world \<Rightarrow> error option \<times> Server \<times> world" where
  "Start e s w =
     (let w1 = emit (LoggerInfo ''Server.Start'') w;
          w2 = emit CallWebServerStart w1
      in case (if EnableLocalMode (config s) then startLocalModeServer e s w2
               else (None, s, w2)) of
           (Some err, s1, w3) \<Rightarrow> (Some err, s1, w3)
         | (None, s1, w3) \<Rightarrow>
             (let s2 = s1\<lparr>cleanUpSessionsTask :=
                          Some (CreateRecurringTask ''cleanUpSessions''
                                  (cleanUpSessions (config s1)) (10 * 60))\<rparr>;
                  w4 = emit (CallCreateRecurringTask ''cleanUpSessions'') w3
              in if Telemetry (config s2)
                 then (None, s2, emit (CallRunTelemetryJob (time_Now_millis e)) w4)
                 else (None, s2, w4)))"

subsection \<open>Shutdown\<close>

definition stopLocalModeServer :: "Server \<Rightarrow> world \<Rightarrow> Server \<times> world" where
  "stopLocalModeServer s w =
     (case localModeServer s of
        Some srv \<Rightarrow> (s\<lparr>localModeServer := None\<rparr>, emit CallLocalServerClose w)
      | None \<Rightarrow> (s, w))"

text \<open>
  Shutdown. The deferred \<open>logger.Info\<close> is registered after the telemetry stop and runs
  once the operand of \<open>return\<close> has been evaluated, that is after the store's Shutdown.
\<close>

definition Shutdown :: "env \<Rightarrow> Server \<Rightarrow> world \<Rightarrow> error option \<times> Server \<times> world" where
  "Shutdown e s w =
     (let w1 = emit CallWebServerShutdown w in
      case webServer_Shutdown e of
        Some err \<Rightarrow> (Some err, s, w1)
      | None \<Rightarrow>
          (case stopLocalModeServer s w1 of
             (s1, w2) \<Rightarrow>
               (let w3 = (case cleanUpSessionsTask s1 of
                            Some task \<Rightarrow> emit (CallTaskCancel (task_name task)) w2
                          | None \<Rightarrow> w2);
                    w4 = emit CallTelemetryShutdown w3;
                    w5 = emit CallStoreShutdown w4;
                    result = store_Shutdown e;
                    w6 = emit (LoggerInfo ''Server.Shutdown'') w5
                in (result, s1, w6))))"

subsection \<open>Reading a trace\<close>

text \<open>The events a run added to the trace it started from.\<close>

definition added :: "world \<Rightarrow> world \<Rightarrow> event list" where
  "added w w' = drop (length (trace w)) (trace w')"

text \<open>
  \<open>strictly_before a b evs\<close>: \<open>a\<close> occurs in \<open>evs\<close>, \<open>b\<close> occurs after the first
  \<open>a\<close>, and no \<open>b\<close> occurs up to the last \<open>a\<close>.
\<close>

definition strictly_before :: "event \<Rightarrow> event \<Rightarrow> event list \<Rightarrow> bool" where
  "strictly_before a b evs =
     (a \<in> set evs \<and> b \<in> set (dropWhile (\<lambda>x. x \<noteq> a) evs)
      \<and> b \<notin> set (rev (dropWhile (\<lambda>x. x \<noteq> a) (rev evs))))"

subsection \<open>Concrete runs\<close>

definition a_config :: Configuration where
  "a_config =
     \<lparr>ServerRoot = ''http://localhost:8000'', Port = 8000, DBType = ''sqlite3'',
      DBConfigString = ''./focalboard.db'', DBTablePrefix = [], UseSSL = False,
      SecureCookie = False, WebPath = ''./pack'', FilesPath = ''./files'', Telemetry = True,
      SessionExpireTime = 60 * 60 * 24 * 40, LocalOnly = False, EnableLocalMode = True,
      LocalModeSocketLocation = ''/var/tmp/focalboard_local.socket'',
      AuthMode = ''mattermost'', MattermostURL = [], MattermostClientID = [],
      MattermostClientSecret = []\<rparr>"

text \<open>Every collaborator succeeds, no external-auth implementation is registered.\<close>

definition an_env :: env where
  "an_env =
     \<lparr>build = \<lparr>CurrentVersion = ''0.6.5'', BuildNumber = ''dev'', BuildHash = ''dev'',
               Edition = ''dev'', GOOS = ''linux'',
               DefaultServerRoot = ''http://localhost:8000'', DefaultPort = 8000\<rparr>,
      zap_NewProduction = None, sqlstore_New = None, NewFileBackend = None,
      GetRootWorkspace = None, GetRegisteredUserCount = Inr 3, GetDailyActiveUsers = Inr 1,
      GetWeeklyActiveUsers = Inr 2, GetMonthlyActiveUsers = Inr 3,
      uuid_New = (\<lambda>n. if n = 0 then ''uuid-A'' else ''uuid-B''),
      NewAPI_authenticator = None, mattermostAuth = None, webServer_bind = None,
      net_Listen = None, os_Chmod = None, CleanUpSessions = None,
      time_Now_millis = 1619300000000, webServer_Shutdown = None, store_Shutdown = None\<rparr>"

text \<open>A first run: the settings table (with unique ids) has no rows.\<close>

definition fresh_world :: world where
  "fresh_world = \<lparr>db = empty_store True, uuids_drawn = 0, trace = []\<rparr>"

text \<open>A later run: the settings table holds a telemetry identifier.\<close>

definition later_world :: world where
  "later_world =
     \<lparr>db = (empty_store True)\<lparr>tables := (\<lambda>t. [(''TelemetryID'', ''uuid-0'')])\<rparr>,
      uuids_drawn = 0, trace = []\<rparr>"

text \<open>A server as New leaves it, and one as Start leaves it with the local mode on.\<close>

definition a_server :: Server where
  "a_server =
     \<lparr>config = a_config,
      webServer = AddRoutes (AddRoutes (web_NewServer a_config) WsServerRoutes) APIRoutes,
      telemetry = telemetry_New ''uuid-0'', cleanUpSessionsTask = None,
      localRouter = [AdminRoutes], localModeServer = None,
      api = NewAPI an_env [] ''mattermost''\<rparr>"

definition a_started_server :: Server where
  "a_started_server =
     a_server\<lparr>cleanUpSessionsTask :=
                 Some (CreateRecurringTask ''cleanUpSessions'' (cleanUpSessions a_config) 600),
               localModeServer := Some \<lparr>http_Handler = [AdminRoutes]\<rparr>\<rparr>"

section \<open>Properties of the settings store\<close>

lemma settings_table_tables_update [simp]:
  "settings_table (s\<lparr>tables := f\<rparr>) = settings_table s"
  by (simp add: settings_table_def)

lemma scan_rows_fault:
  "j < length rows \<Longrightarrow> scan_fault s (i + j) \<noteq> None \<Longrightarrow> isl (scan_rows s i rows m)"
proof (induction rows arbitrary: i j m)
  case Nil
  then show ?case by simp
next
  case (Cons r rows)
  show ?case
  proof (cases "scan_fault s i")
    case (Some err)
    then show ?thesis by (simp add: Scan_def)
  next
    case None
    with Cons.prems obtain j' where j: "j = Suc j'"
      by (cases j) auto
    obtain k v where r: "r = (k, v)" by (cases r)
    have "isl (scan_rows s (Suc i) rows (m(k \<mapsto> v)))"
      using Cons.IH [of j' "Suc i"] Cons.prems j by simp
    then show ?thesis by (simp add: Scan_def None r)
  qed
qed

lemma map_upd_add_assoc: "m(k \<mapsto> v) ++ X = m ++ ([k \<mapsto> v] ++ X)"
proof -
  have "m(k \<mapsto> v) = m ++ [k \<mapsto> v]" by simp
  then show ?thesis by (simp only: map_add_assoc)
qed

text \<open>With a driver whose scans all succeed, a later row of a key overwrites an earlier one.\<close>

lemma scan_rows_no_fault:
  "(\<And>j. scan_fault s j = None) \<Longrightarrow>
   scan_rows s i rows m = Inr (m ++ map_of (rev rows))"
proof (induction rows arbitrary: i m)
  case Nil
  then show ?case by simp
next
  case (Cons r rows)
  obtain k v where r: "r = (k, v)" by (cases r)
  have "scan_rows s i (r # rows) m = scan_rows s (Suc i) rows (m(k \<mapsto> v))"
    using Cons.prems by (simp add: Scan_def r)
  also have "\<dots> = Inr (m(k \<mapsto> v) ++ map_of (rev rows))"
    by (rule Cons.IH [OF Cons.prems])
  also have "m(k \<mapsto> v) ++ map_of (rev rows) = m ++ map_of (rev (r # rows))"
  proof -
    have "m ++ map_of (rev (r # rows)) = m ++ ([k \<mapsto> v] ++ map_of (rev rows))"
      by (simp add: r)
    then show ?thesis
      by (simp only: map_upd_add_assoc [of m k v "map_of (rev rows)"])
  qed
  finally show ?case .
qed

lemma SetSystemSetting_first:
  "exec_fault s = None \<Longrightarrow> k \<notin> fst ` set (tables s (settings_table s)) \<Longrightarrow>
   SetSystemSetting s k v =
     (None, s\<lparr>tables := (tables s)(settings_table s := tables s (settings_table s) @ [(k, v)])\<rparr>)"
  by (simp add: SetSystemSetting_def Exec_insert_def)

lemma SetSystemSetting_again_unique:
  "exec_fault s = None \<Longrightarrow> unique_ids s \<Longrightarrow> k \<in> fst ` set (tables s (settings_table s)) \<Longrightarrow>
   SetSystemSetting s k v = (Some ErrDuplicateKey, s)"
  by (simp add: SetSystemSetting_def Exec_insert_def)

text \<open>
  On a table with unique ids, whatever the key and the two values: when the first
  SetSystemSetting succeeds, the second one of the same key is refused and changes nothing.
\<close>

lemma SetSystemSetting_twice_unique:
  assumes "exec_fault s = None" and "unique_ids s"
      and "SetSystemSetting s k v1 = (None, s1)"
  shows "SetSystemSetting s1 k v2 = (Some ErrDuplicateKey, s1)"
proof -
  have s1: "s1 = s\<lparr>tables := (tables s)(settings_table s := tables s (settings_table s) @ [(k, v1)])\<rparr>"
    using assms by (auto simp: SetSystemSetting_def Exec_insert_def split: if_splits)
  show ?thesis
    by (rule SetSystemSetting_again_unique) (simp_all add: s1 assms)
qed

text \<open>
  On a table without unique ids and a driver that never fails, both INSERTs succeed: the
  table ends with two rows of the key, and GetSystemSettings, scanning them in this order,
  binds the key to the second value.
\<close>

lemma SetSystemSetting_twice_not_unique:
  assumes "exec_fault s = None" and "\<not> unique_ids s" and "query_fault s = None"
      and "\<And>j. scan_fault s j = None"
  shows "\<exists>s1 s2. SetSystemSetting s k v1 = (None, s1) \<and> SetSystemSetting s1 k v2 = (None, s2) \<and>
           tables s2 (settings_table s) = tables s (settings_table s) @ [(k, v1), (k, v2)] \<and>
           (\<exists>m. GetSystemSettings s2 = Inr m \<and> m k = Some v2)"
proof -
  define s1 where
    "s1 = s\<lparr>tables := (tables s)(settings_table s := tables s (settings_table s) @ [(k, v1)])\<rparr>"
  define s2 where
    "s2 = s1\<lparr>tables := (tables s1)(settings_table s1 := tables s1 (settings_table s1) @ [(k, v2)])\<rparr>"
  have a: "SetSystemSetting s k v1 = (None, s1)"
    using assms by (simp add: SetSystemSetting_def Exec_insert_def s1_def)
  have b: "SetSystemSetting s1 k v2 = (None, s2)"
    using assms by (simp add: SetSystemSetting_def Exec_insert_def s1_def s2_def)
  have t: "tables s2 (settings_table s) = tables s (settings_table s) @ [(k, v1), (k, v2)]"
    by (simp add: s1_def s2_def)
  have f: "\<And>j. scan_fault s2 j = None"
    using assms by (simp add: s1_def s2_def)
  have "GetSystemSettings s2 =
          Inr (Map.empty ++ map_of (rev (tables s (settings_table s) @ [(k, v1), (k, v2)])))"
    using assms(3) scan_rows_no_fault [of s2, OF f]
    by (simp add: GetSystemSettings_def Query_def s1_def s2_def)
  then have "\<exists>m. GetSystemSettings s2 = Inr m \<and> m k = Some v2"
    by simp
  with a b t show ?thesis by blast
qed

text \<open>
  Claim C3 (set twice, then get: no duplicate-key error, the key bound to the second value).
  On the empty settings table with unique ids, \<open>SetSystemSetting "k" "a"\<close> succeeds,
  \<open>SetSystemSetting "k" "b"\<close> returns the duplicate-key error, and GetSystemSettings then
  binds \<open>"k"\<close> to \<open>"a"\<close>, the first value: the INSERT of SetSystemSetting has no clause
  for a key that is already there.
\<close>

theorem SetSystemSetting_twice_duplicate_key:
  "fst (SetSystemSetting (empty_store True) ''k'' ''a'') = None \<and>
   fst (SetSystemSetting (snd (SetSystemSetting (empty_store True) ''k'' ''a'')) ''k'' ''b'')
     = Some ErrDuplicateKey \<and>
   (case GetSystemSettings
           (snd (SetSystemSetting (snd (SetSystemSetting (empty_store True) ''k'' ''a'')) ''k'' ''b''))
    of Inl err \<Rightarrow> False | Inr m \<Rightarrow> m ''k'' = Some ''a'')"
  by (simp add: SetSystemSetting_def Exec_insert_def GetSystemSettings_def Query_def Scan_def
      settings_table_def empty_store_def)

text \<open>
  Claim C9. GetSystemSettings on a settings table with no rows, when the query succeeds,
  returns the empty mapping with a nil error (\<open>Inr Map.empty\<close>: neither an error nor a nil
  mapping); when the query fails it returns that error; when the query succeeds and the
  scan of some row fails it returns an error.
\<close>

theorem GetSystemSettings_empty_or_error:
  "(query_fault s = None \<and> tables s (settings_table s) = [] \<longrightarrow>
      GetSystemSettings s = Inr Map.empty) \<and>
   (\<forall>err. query_fault s = Some err \<longrightarrow> GetSystemSettings s = Inl err) \<and>
   (query_fault s = None \<and>
    (\<exists>i. i < length (tables s (settings_table s)) \<and> scan_fault s i \<noteq> None) \<longrightarrow>
      (\<exists>err. GetSystemSettings s = Inl err))"
proof (intro conjI impI allI)
  assume "query_fault s = None \<and> tables s (settings_table s) = []"
  then show "GetSystemSettings s = Inr Map.empty"
    by (simp add: GetSystemSettings_def Query_def)
next
  fix err assume "query_fault s = Some err"
  then show "GetSystemSettings s = Inl err"
    by (simp add: GetSystemSettings_def Query_def)
next
  assume a: "query_fault s = None \<and>
    (\<exists>i. i < length (tables s (settings_table s)) \<and> scan_fault s i \<noteq> None)"
  then obtain i where i: "i < length (tables s (settings_table s))" "scan_fault s (0 + i) \<noteq> None"
    by auto
  have "isl (scan_rows s 0 (tables s (settings_table s)) Map.empty)"
    by (rule scan_rows_fault [OF i])
  then have "isl (GetSystemSettings s)"
    using a by (simp add: GetSystemSettings_def Query_def)
  then show "\<exists>err. GetSystemSettings s = Inl err"
    by (cases "GetSystemSettings s") auto
qed

theorem GetSystemSettings_empty_or_error_witness:
  "GetSystemSettings (empty_store True) = Inr Map.empty \<and>
   GetSystemSettings ((empty_store True)\<lparr>query_fault := Some (ErrExternal ''connection lost'')\<rparr>)
     = Inl (ErrExternal ''connection lost'') \<and>
   (\<exists>err. GetSystemSettings
      ((empty_store True)\<lparr>tables := (\<lambda>t. [(''TelemetryID'', ''x'')]),
                           scan_fault := (\<lambda>i. Some (ErrExternal ''bad column''))\<rparr>) = Inl err)"
  using GetSystemSettings_empty_or_error [of "empty_store True"]
    GetSystemSettings_empty_or_error
      [of "(empty_store True)\<lparr>query_fault := Some (ErrExternal ''connection lost'')\<rparr>"]
    GetSystemSettings_empty_or_error
      [of "(empty_store True)\<lparr>tables := (\<lambda>t. [(''TelemetryID'', ''x'')]),
                           scan_fault := (\<lambda>i. Some (ErrExternal ''bad column''))\<rparr>"]
  by (simp add: empty_store_def)

section \<open>Properties of the server\<close>

lemma emit_simps [simp]:
  "trace (emit ev w) = trace w @ [ev]"
  "db (emit ev w) = db w"
  "uuids_drawn (emit ev w) = uuids_drawn w"
  by (simp_all add: emit_def)

lemma added_append [simp]: "trace w' = trace w @ evs \<Longrightarrow> added w w' = evs"
  by (simp add: added_def)

lemma added_self [simp]: "added w w = []"
  by (simp add: added_def)

lemma initHandlers_no_impl: "mattermostAuth e = None \<Longrightarrow> initHandlers e s w = (s, w)"
  by (simp add: initHandlers_def Let_def)

text \<open>
  Claim C8. When the auth mode is \<open>"mattermost"\<close> and no implementation is registered
  (\<open>mattermostAuth\<close> is nil), initHandlers changes nothing: the server and the world are
  the ones it was given, so no route is added to the public web server, the API's
  \<open>WorkspaceAuthenticator\<close> is the one it was, and nothing is logged.
\<close>

theorem initHandlers_without_implementation:
  assumes "AuthMode (config s) = ''mattermost''" and "mattermostAuth e = None"
  shows "initHandlers e s w = (s, w) \<and>
         routes (webServer (fst (initHandlers e s w))) = routes (webServer s) \<and>
         WorkspaceAuthenticator (api (fst (initHandlers e s w))) = WorkspaceAuthenticator (api s)"
  using assms by (simp add: initHandlers_def Let_def)

theorem initHandlers_without_implementation_witness:
  "AuthMode (config a_server) = ''mattermost'' \<and> mattermostAuth an_env = None \<and>
   initHandlers an_env a_server fresh_world = (a_server, fresh_world) \<and>
   routes (webServer (fst (initHandlers an_env a_server fresh_world))) = [WsServerRoutes, APIRoutes] \<and>
   WorkspaceAuthenticator (api (fst (initHandlers an_env a_server fresh_world))) = None"
  using initHandlers_without_implementation [of a_server an_env fresh_world]
  by (simp add: a_server_def a_config_def an_env_def AddRoutes_def web_NewServer_def NewAPI_def)

text \<open>With an implementation registered the same call adds its routes and installs it.\<close>

lemma initHandlers_with_implementation:
  assumes "AuthMode (config s) = ''mattermost''" and "mattermostAuth e = Some f"
  shows "\<exists>h. routes (webServer (fst (initHandlers e s w))) = routes (webServer s) @ [AuthHandlerRoutes h] \<and>
         WorkspaceAuthenticator (api (fst (initHandlers e s w))) = Some h"
  using assms by (simp add: initHandlers_def Let_def AddRoutes_def)


lemma stopLocalModeServer_task [simp]:
  "cleanUpSessionsTask (fst (stopLocalModeServer s w)) = cleanUpSessionsTask s"
  by (simp add: stopLocalModeServer_def split: option.splits)

lemma Shutdown_trace:
  "webServer_Shutdown e = None \<Longrightarrow>
   trace (snd (snd (Shutdown e s w))) =
     trace w @ CallWebServerShutdown #
       (case localModeServer s of Some srv \<Rightarrow> [CallLocalServerClose] | None \<Rightarrow> []) @
       (case cleanUpSessionsTask s of Some task \<Rightarrow> [CallTaskCancel (task_name task)] | None \<Rightarrow> []) @
       [CallTelemetryShutdown, CallStoreShutdown, LoggerInfo ''Server.Shutdown'']"
  by (simp add: Shutdown_def stopLocalModeServer_def Let_def split: option.splits)

lemma Shutdown_added:
  "webServer_Shutdown e = None \<Longrightarrow>
   added w (snd (snd (Shutdown e s w))) =
     CallWebServerShutdown #
       (case localModeServer s of Some srv \<Rightarrow> [CallLocalServerClose] | None \<Rightarrow> []) @
       (case cleanUpSessionsTask s of Some task \<Rightarrow> [CallTaskCancel (task_name task)] | None \<Rightarrow> []) @
       [CallTelemetryShutdown, CallStoreShutdown, LoggerInfo ''Server.Shutdown'']"
  by (rule added_append) (rule Shutdown_trace)

lemma Shutdown_failed:
  "webServer_Shutdown e = Some err \<Longrightarrow>
   Shutdown e s w = (Some err, s, emit CallWebServerShutdown w)"
  by (simp add: Shutdown_def)

text \<open>
  Claim C5. Shutdown stops the public web server first. When that stop returns an error,
  Shutdown returns it with the server unchanged and nothing else called (no local server
  close, task cancellation, telemetry stop or store shutdown). Otherwise it returns what the
  store's Shutdown returns, and its calls are, in this order: the web server stop, the local
  server close (when there is one), the task cancellation (when there is a task), the
  telemetry stop, the store shutdown, the deferred log line; so the telemetry stop and the
  cancellation of an existing task come strictly before the store shutdown.
\<close>

theorem Shutdown_order:
  assumes "Shutdown e s w = (r, s', w')"
  shows "(\<forall>err. webServer_Shutdown e = Some err \<longrightarrow>
            r = Some err \<and> s' = s \<and> added w w' = [CallWebServerShutdown]) \<and>
         (webServer_Shutdown e = None \<longrightarrow>
            r = store_Shutdown e \<and>
            added w w' =
              CallWebServerShutdown #
                (case localModeServer s of Some srv \<Rightarrow> [CallLocalServerClose] | None \<Rightarrow> []) @
                (case cleanUpSessionsTask s of
                   Some task \<Rightarrow> [CallTaskCancel (task_name task)] | None \<Rightarrow> []) @
                [CallTelemetryShutdown, CallStoreShutdown, LoggerInfo ''Server.Shutdown''] \<and>
            strictly_before CallTelemetryShutdown CallStoreShutdown (added w w') \<and>
            (\<forall>task. cleanUpSessionsTask s = Some task \<longrightarrow>
               strictly_before (CallTaskCancel (task_name task)) CallStoreShutdown (added w w')))"
proof -
  have failed: "r = Some err \<and> s' = s \<and> added w w' = [CallWebServerShutdown]"
    if f: "webServer_Shutdown e = Some err" for err
  proof -
    from Shutdown_failed [OF f, of s w] assms
    have "r = Some err" "s' = s" "w' = emit CallWebServerShutdown w" by simp_all
    then show ?thesis by simp
  qed
  have stopped:
    "r = store_Shutdown e \<and>
     added w w' =
       CallWebServerShutdown #
         (case localModeServer s of Some srv \<Rightarrow> [CallLocalServerClose] | None \<Rightarrow> []) @
         (case cleanUpSessionsTask s of
            Some task \<Rightarrow> [CallTaskCancel (task_name task)] | None \<Rightarrow> []) @
         [CallTelemetryShutdown, CallStoreShutdown, LoggerInfo ''Server.Shutdown''] \<and>
     strictly_before CallTelemetryShutdown CallStoreShutdown (added w w') \<and>
     (\<forall>task. cleanUpSessionsTask s = Some task \<longrightarrow>
        strictly_before (CallTaskCancel (task_name task)) CallStoreShutdown (added w w'))"
    if ok: "webServer_Shutdown e = None"
  proof -
    have w': "w' = snd (snd (Shutdown e s w))" using assms by simp
    have r: "r = store_Shutdown e"
      using assms ok by (simp add: Shutdown_def Let_def split: prod.splits)
    have a: "added w w' =
       CallWebServerShutdown #
         (case localModeServer s of Some srv \<Rightarrow> [CallLocalServerClose] | None \<Rightarrow> []) @
         (case cleanUpSessionsTask s of
            Some task \<Rightarrow> [CallTaskCancel (task_name task)] | None \<Rightarrow> []) @
         [CallTelemetryShutdown, CallStoreShutdown, LoggerInfo ''Server.Shutdown'']"
      unfolding w' by (rule Shutdown_added [OF ok])
    have t: "strictly_before CallTelemetryShutdown CallStoreShutdown (added w w')"
      unfolding a by (simp add: strictly_before_def split: option.splits)
    have c: "strictly_before (CallTaskCancel (task_name task)) CallStoreShutdown (added w w')"
      if "cleanUpSessionsTask s = Some task" for task
      unfolding a using that by (simp add: strictly_before_def split: option.splits)
    from r a t c show ?thesis by blast
  qed
  from failed stopped show ?thesis by blast
qed

theorem Shutdown_order_witness:
  "fst (Shutdown (an_env\<lparr>webServer_Shutdown := Some (ErrExternal ''busy'')\<rparr>)
          a_started_server fresh_world) = Some (ErrExternal ''busy'') \<and>
   added fresh_world
     (snd (snd (Shutdown (an_env\<lparr>webServer_Shutdown := Some (ErrExternal ''busy'')\<rparr>)
                  a_started_server fresh_world))) = [CallWebServerShutdown] \<and>
   fst (Shutdown (an_env\<lparr>store_Shutdown := Some (ErrExternal ''locked'')\<rparr>)
          a_started_server fresh_world) = Some (ErrExternal ''locked'') \<and>
   added fresh_world
     (snd (snd (Shutdown (an_env\<lparr>store_Shutdown := Some (ErrExternal ''locked'')\<rparr>)
                  a_started_server fresh_world))) =
     [CallWebServerShutdown, CallLocalServerClose, CallTaskCancel ''cleanUpSessions'',
      CallTelemetryShutdown, CallStoreShutdown, LoggerInfo ''Server.Shutdown''] \<and>
   strictly_before (CallTaskCancel ''cleanUpSessions'') CallStoreShutdown
     (added fresh_world
        (snd (snd (Shutdown (an_env\<lparr>store_Shutdown := Some (ErrExternal ''locked'')\<rparr>)
                     a_started_server fresh_world))))"
proof -
  obtain r1 s1 w1 where h1:
    "Shutdown (an_env\<lparr>webServer_Shutdown := Some (ErrExternal ''busy'')\<rparr>)
       a_started_server fresh_world = (r1, s1, w1)"
    by (rule prod_cases3)
  obtain r2 s2 w2 where h2:
    "Shutdown (an_env\<lparr>store_Shutdown := Some (ErrExternal ''locked'')\<rparr>)
       a_started_server fresh_world = (r2, s2, w2)"
    by (rule prod_cases3)
  have "webServer_Shutdown (an_env\<lparr>store_Shutdown := Some (ErrExternal ''locked'')\<rparr>) = None"
    by (simp add: an_env_def)
  with Shutdown_order [OF h1] Shutdown_order [OF h2] show ?thesis
    unfolding h1 h2
    by (simp add: a_started_server_def a_server_def CreateRecurringTask_def strictly_before_def)
qed

lemma secondsAgo_max:
  "sint (if (60 * 60 * 24 * 31 :: 64 word) <s x then x else 60 * 60 * 24 * 31)
     = max 2678400 (sint x)"
  by (simp add: word_sless_alt)

lemma cleanUpSessions_trace:
  "trace (cleanUpSessions cfg e w) =
     trace w @
       CallCleanUpSessions (if (60 * 60 * 24 * 31 :: 64 word) <s SessionExpireTime cfg
                            then SessionExpireTime cfg else 60 * 60 * 24 * 31) #
       (case CleanUpSessions e of
          Some err \<Rightarrow> [LoggerError ''Unable to clean up the sessions'']
        | None \<Rightarrow> [])"
  by (simp add: cleanUpSessions_def Let_def split: option.splits)

lemma startLocalModeServer_frame:
  "config (fst (snd (startLocalModeServer e s w))) = config s"
  "cleanUpSessionsTask (fst (snd (startLocalModeServer e s w))) = cleanUpSessionsTask s"
  by (simp_all add: startLocalModeServer_def Let_def split: option.splits)

lemma startLocalModeServer_config:
  "startLocalModeServer e s w = (r, s1, w1) \<Longrightarrow> config s1 = config s"
  using startLocalModeServer_frame(1) [of e s w] by simp

lemma startLocalModeServer_result:
  "fst (startLocalModeServer e s w) =
     (case net_Listen e of Some err \<Rightarrow> Some err | None \<Rightarrow> os_Chmod e)"
  by (simp add: startLocalModeServer_def Let_def split: option.splits)

lemma startLocalModeServer_trace:
  "\<exists>evs. trace (snd (snd (startLocalModeServer e s w))) = trace w @ evs \<and>
         CallCreateRecurringTask ''cleanUpSessions'' \<notin> set evs \<and>
         (\<forall>t. CallRunTelemetryJob t \<notin> set evs)"
  by (simp add: startLocalModeServer_def Let_def split: option.splits)

text \<open>What Start returns depends on the local mode alone.\<close>

lemma Start_result:
  "fst (Start e s w) =
     (if EnableLocalMode (config s)
      then (case net_Listen e of Some err \<Rightarrow> Some err | None \<Rightarrow> os_Chmod e)
      else None)"
  by (simp add: Start_def startLocalModeServer_def Let_def split: option.splits prod.splits)

text \<open>
  Claim C6. When Start succeeds, the server holds the task \<open>cleanUpSessions\<close>, and every
  tick of its action, in any world, calls CleanUpSessions exactly once, with the maximum of
  2678400 seconds (31 days) and the configured \<open>SessionExpireTime\<close> (as signed 64-bit
  values); a failed call is logged and adds nothing else. The witness is the configuration
  with an expiry of 40 days: the task purges with 40 days, not 31.
\<close>

theorem Start_cleanup_retention:
  assumes "Start e s w = (None, s', w')"
  shows "\<exists>task x.
           cleanUpSessionsTask s' = Some task \<and> task_name task = ''cleanUpSessions'' \<and>
           sint x = max 2678400 (sint (SessionExpireTime (config s))) \<and>
           (\<forall>e1 w1. added w1 (task_action task e1 w1) =
              CallCleanUpSessions x #
                (case CleanUpSessions e1 of
                   Some err \<Rightarrow> [LoggerError ''Unable to clean up the sessions'']
                 | None \<Rightarrow> []))"
proof -
  define x :: "64 word" where
    "x = (if 60 * 60 * 24 * 31 <s SessionExpireTime (config s)
          then SessionExpireTime (config s) else 60 * 60 * 24 * 31)"
  define task where
    "task = CreateRecurringTask ''cleanUpSessions'' (cleanUpSessions (config s)) (10 * 60)"
  have s': "cleanUpSessionsTask s' = Some task"
    using assms
    by (auto simp: Start_def Let_def task_def split: if_splits option.splits prod.splits
        dest: startLocalModeServer_config)
  have name: "task_name task = ''cleanUpSessions''"
    by (simp add: task_def CreateRecurringTask_def)
  have x: "sint x = max 2678400 (sint (SessionExpireTime (config s)))"
    unfolding x_def by (rule secondsAgo_max)
  have tick: "added w1 (task_action task e1 w1) =
      CallCleanUpSessions x #
        (case CleanUpSessions e1 of
           Some err \<Rightarrow> [LoggerError ''Unable to clean up the sessions'']
         | None \<Rightarrow> [])" for e1 w1
    unfolding x_def
    by (rule added_append) (simp add: task_def CreateRecurringTask_def cleanUpSessions_trace)
  from s' name x tick show ?thesis by blast
qed


theorem Start_cleanup_retention_witness:
  "fst (Start an_env a_server fresh_world) = None \<and>
   sint (SessionExpireTime (config a_server)) = 40 * (60 * 60 * 24) \<and>
   (\<exists>task x.
      cleanUpSessionsTask (fst (snd (Start an_env a_server fresh_world))) = Some task \<and>
      task_name task = ''cleanUpSessions'' \<and>
      sint x = 40 * (60 * 60 * 24) \<and>
      (\<forall>e1 w1. added w1 (task_action task e1 w1) =
         CallCleanUpSessions x #
           (case CleanUpSessions e1 of
              Some err \<Rightarrow> [LoggerError ''Unable to clean up the sessions'']
            | None \<Rightarrow> [])))"
proof -
  obtain r s' w' where h: "Start an_env a_server fresh_world = (r, s', w')"
    by (rule prod_cases3)
  have "fst (Start an_env a_server fresh_world) = None"
    by (simp add: Start_result an_env_def)
  with h have r: "r = None" by simp
  have e: "sint (SessionExpireTime (config a_server)) = 40 * (60 * 60 * 24)"
    by (simp add: a_server_def a_config_def)
  from Start_cleanup_retention [OF h [unfolded r]] show ?thesis
    unfolding h r e by simp
qed

text \<open>
  Claim C7, as stated, fails on the public listener: Start calls \<open>webServer.Start()\<close> as
  a statement and looks at nothing it returns. With the public listener failing to bind and
  the local socket bound, Start returns nil.
\<close>

theorem Start_public_bind_failure_unreported:
  "webServer_bind (an_env\<lparr>webServer_bind := Some (ErrExternal ''address already in use'')\<rparr>)
     = Some (ErrExternal ''address already in use'') \<and>
   fst (Start (an_env\<lparr>webServer_bind := Some (ErrExternal ''address already in use'')\<rparr>)
          a_server fresh_world) = None"
  by (simp add: Start_result an_env_def)

text \<open>
  Claim C7, amended. With the local mode enabled, when \<open>net.Listen\<close> on the socket
  fails, or it succeeds and \<open>os.Chmod\<close> on the socket fails, Start returns that error and
  startup stops there: the session-cleanup task is not created (the handle is the one the
  server had) and the telemetry job is not started.
\<close>

theorem Start_local_bind_failure:
  assumes "EnableLocalMode (config s)"
      and "net_Listen e = Some err \<or> (net_Listen e = None \<and> os_Chmod e = Some err)"
      and "Start e s w = (r, s', w')"
  shows "r = Some err \<and> cleanUpSessionsTask s' = cleanUpSessionsTask s \<and>
         CallCreateRecurringTask ''cleanUpSessions'' \<notin> set (added w w') \<and>
         (\<forall>t. CallRunTelemetryJob t \<notin> set (added w w'))"
proof -
  have r: "r = Some err"
    using Start_result [of e s w] assms by auto
  obtain r1 s1 w1 where l:
    "startLocalModeServer e s (emit CallWebServerStart (emit (LoggerInfo ''Server.Start'') w))
       = (r1, s1, w1)"
    by (rule prod_cases3)
  have r1: "r1 = Some err"
    using startLocalModeServer_result
      [of e s "emit CallWebServerStart (emit (LoggerInfo ''Server.Start'') w)"] l assms(2)
    by auto
  have out: "s' = s1" "w' = w1"
    using assms(1,3) l r1 by (simp_all add: Start_def Let_def)
  have task: "cleanUpSessionsTask s1 = cleanUpSessionsTask s"
    using startLocalModeServer_frame(2)
      [of e s "emit CallWebServerStart (emit (LoggerInfo ''Server.Start'') w)"] l by simp
  obtain evs where evs:
    "trace w1 = trace (emit CallWebServerStart (emit (LoggerInfo ''Server.Start'') w)) @ evs"
    "CallCreateRecurringTask ''cleanUpSessions'' \<notin> set evs"
    "\<forall>t. CallRunTelemetryJob t \<notin> set evs"
    using startLocalModeServer_trace
      [of e s "emit CallWebServerStart (emit (LoggerInfo ''Server.Start'') w)"] l by auto
  have "added w w1 = LoggerInfo ''Server.Start'' # CallWebServerStart # evs"
    by (rule added_append) (simp add: evs(1))
  with evs(2,3) r task out show ?thesis by simp
qed

theorem Start_local_bind_failure_witness:
  "EnableLocalMode (config a_server) \<and>
   fst (Start (an_env\<lparr>net_Listen := Some (ErrExternal ''permission denied'')\<rparr>)
          a_server fresh_world) = Some (ErrExternal ''permission denied'') \<and>
   cleanUpSessionsTask
     (fst (snd (Start (an_env\<lparr>net_Listen := Some (ErrExternal ''permission denied'')\<rparr>)
                  a_server fresh_world))) = None \<and>
   CallCreateRecurringTask ''cleanUpSessions'' \<notin>
     set (added fresh_world
            (snd (snd (Start (an_env\<lparr>net_Listen := Some (ErrExternal ''permission denied'')\<rparr>)
                         a_server fresh_world))))"
proof -
  obtain r s' w' where h:
    "Start (an_env\<lparr>net_Listen := Some (ErrExternal ''permission denied'')\<rparr>)
       a_server fresh_world = (r, s', w')"
    by (rule prod_cases3)
  have a: "EnableLocalMode (config a_server)"
    by (simp add: a_server_def a_config_def)
  have b: "net_Listen (an_env\<lparr>net_Listen := Some (ErrExternal ''permission denied'')\<rparr>)
             = Some (ErrExternal ''permission denied'') \<or>
           (net_Listen (an_env\<lparr>net_Listen := Some (ErrExternal ''permission denied'')\<rparr>) = None \<and>
            os_Chmod (an_env\<lparr>net_Listen := Some (ErrExternal ''permission denied'')\<rparr>)
              = Some (ErrExternal ''permission denied''))"
    by simp
  from Start_local_bind_failure [OF a b h] a show ?thesis
    unfolding h by (simp add: a_server_def)
qed

text \<open>With a stored identifier that is not empty, lines 99 to 106 of New do nothing.\<close>

lemma init_telemetryID_kept:
  "settings ''TelemetryID'' = Some v \<Longrightarrow> v \<noteq> [] \<Longrightarrow>
   init_telemetryID e settings w = (Inr v, w)"
  by (simp add: init_telemetryID_def)

lemma uuid_New_String_simps [simp]:
  "fst (uuid_New_String e w) = uuid_New e (uuids_drawn w)"
  "uuids_drawn (snd (uuid_New_String e w)) = Suc (uuids_drawn w)"
  "db (snd (uuid_New_String e w)) = db w"
  "trace (snd (uuid_New_String e w)) = trace w @ [CallUuidNew]"
  by (simp_all add: uuid_New_String_def)

text \<open>
  The first run in general: with the key missing or empty, the identifier New goes on with
  is the first one drawn and the one given to SetSystemSetting is the second.
\<close>

lemma init_telemetryID_first_run:
  assumes "settings ''TelemetryID'' = None \<or> settings ''TelemetryID'' = Some []"
      and "init_telemetryID e settings w = (Inr tid, w')"
  shows "tid = uuid_New e (uuids_drawn w) \<and> uuids_drawn w' = uuids_drawn w + 2 \<and>
         added w w' =
           [CallUuidNew, CallUuidNew,
            CallSetSystemSetting ''TelemetryID'' (uuid_New e (Suc (uuids_drawn w)))] \<and>
         SetSystemSetting (db w) ''TelemetryID'' (uuid_New e (Suc (uuids_drawn w)))
           = (None, db w')"
  using assms
  by (auto simp: init_telemetryID_def Let_def uuid_New_String_def emit_def added_def
      split: prod.splits option.splits)

lemma initHandlers_frame:
  "db (snd (initHandlers e s w)) = db w"
  "uuids_drawn (snd (initHandlers e s w)) = uuids_drawn w"
  "telemetry (fst (initHandlers e s w)) = telemetry s"
  "cleanUpSessionsTask (fst (initHandlers e s w)) = cleanUpSessionsTask s"
  "localModeServer (fst (initHandlers e s w)) = localModeServer s"
  by (simp_all add: initHandlers_def Let_def split: option.splits)

lemma initHandlers_trace:
  "trace (snd (initHandlers e s w)) =
     trace w @
       (if AuthMode (config s) = ''mattermost''
        then (case mattermostAuth e of
                None \<Rightarrow> []
              | Some f \<Rightarrow>
                  [LogPrint ''Using Mattermost Auth'', CallMattermostAuth,
                   LogPrint ''CREATING AUTH'', LogPrint ''ADDING ROUTES'',
                   LogPrint ''SETTING THE AUTHENTICATOR''])
        else [])"
  by (simp add: initHandlers_def Let_def split: option.splits)

lemma initHandlers_quiet:
  "\<exists>evs. trace (snd (initHandlers e s w)) = trace w @ evs \<and>
         (\<forall>k x. CallSetSystemSetting k x \<notin> set evs) \<and> CallUuidNew \<notin> set evs"
proof (cases "AuthMode (config s) = ''mattermost''")
  case False
  then have "trace (snd (initHandlers e s w)) = trace w @ []"
    by (simp add: initHandlers_trace)
  then show ?thesis by fastforce
next
  case True
  show ?thesis
  proof (cases "mattermostAuth e")
    case None
    with True have "trace (snd (initHandlers e s w)) = trace w @ []"
      by (simp add: initHandlers_trace)
    then show ?thesis by fastforce
  next
    case (Some f)
    with True have "trace (snd (initHandlers e s w)) =
      trace w @ [LogPrint ''Using Mattermost Auth'', CallMattermostAuth,
                   LogPrint ''CREATING AUTH'', LogPrint ''ADDING ROUTES'',
                   LogPrint ''SETTING THE AUTHENTICATOR'']"
      by (simp add: initHandlers_trace)
    then show ?thesis by fastforce
  qed
qed

text \<open>Whatever GetRootWorkspace returns, New does the same.\<close>

lemma New_ignores_GetRootWorkspace:
  "New (e\<lparr>GetRootWorkspace := x\<rparr>) cfg tok w = New e cfg tok w"
  by (simp add: New_def init_telemetryID_def initHandlers_def uuid_New_String_def NewAPI_def
      cong: option.case_cong sum.case_cong prod.case_cong if_cong)

text \<open>A server New returns has no session-cleanup task and no local server yet.\<close>

lemma New_server_handles:
  assumes "New e cfg tok w = (Inr s, w1)"
  shows "cleanUpSessionsTask s = None \<and> localModeServer s = None"
proof -
  from assms obtain server w3 where "initHandlers e server w3 = (s, w1)"
    and "cleanUpSessionsTask server = None" and "localModeServer server = None"
    by (auto simp: New_def Let_def split: option.splits sum.splits prod.splits)
  then show ?thesis
    using initHandlers_frame(4,5) [of e server w3] by simp
qed


lemma initHandlers_out:
  assumes "initHandlers e s w = (s', w')"
  shows "db w' = db w \<and> uuids_drawn w' = uuids_drawn w \<and> telemetry s' = telemetry s \<and>
         cleanUpSessionsTask s' = cleanUpSessionsTask s \<and>
         localModeServer s' = localModeServer s \<and>
         (\<exists>evs. trace w' = trace w @ evs \<and>
            (\<forall>k x. CallSetSystemSetting k x \<notin> set evs) \<and> CallUuidNew \<notin> set evs)"
  using initHandlers_frame [of e s w] initHandlers_quiet [of e s w] assms by simp

text \<open>
  Claim C4. When the settings New reads from the store bind \<open>"TelemetryID"\<close> to a value
  that is not empty, then however New ends: the tables of the database are the ones before,
  so reading the settings again gives the same mapping and the same \<open>"TelemetryID"\<close>; no
  identifier is drawn; the calls New made contain no SetSystemSetting at all (for that key
  or any other) and no \<open>uuid.New()\<close>; and when New returns a server, its telemetry
  service holds the stored identifier.
\<close>

theorem New_keeps_TelemetryID:
  assumes g: "GetSystemSettings ((db w)\<lparr>tablePrefix := DBTablePrefix cfg\<rparr>) = Inr settings"
      and v: "settings ''TelemetryID'' = Some v" "v \<noteq> []"
      and n: "New e cfg tok w = (r, w')"
  shows "tables (db w') = tables (db w) \<and>
         GetSystemSettings ((db w')\<lparr>tablePrefix := DBTablePrefix cfg\<rparr>) = Inr settings \<and>
         uuids_drawn w' = uuids_drawn w \<and>
         (\<exists>evs. trace w' = trace w @ evs \<and>
            (\<forall>k x. CallSetSystemSetting k x \<notin> set evs) \<and> CallUuidNew \<notin> set evs) \<and>
         (\<forall>s. r = Inr s \<longrightarrow> telemetryID (telemetry s) = v)"
proof -
  let ?w2 = "emit CallGetRootWorkspace (w\<lparr>db := (db w)\<lparr>tablePrefix := DBTablePrefix cfg\<rparr>\<rparr>)"
  have i: "init_telemetryID e settings ?w2 = (Inr v, ?w2)"
    using v by (simp add: init_telemetryID_kept)
  have d: "(db w')\<lparr>tablePrefix := DBTablePrefix cfg\<rparr> = (db w)\<lparr>tablePrefix := DBTablePrefix cfg\<rparr>"
    using n
    by (auto simp: New_def Let_def g i split: option.splits sum.splits prod.splits
        dest!: initHandlers_out)
  have t: "tables (db w') = tables (db w)"
    using n
    by (auto simp: New_def Let_def g i split: option.splits sum.splits prod.splits
        dest!: initHandlers_out)
  have u: "uuids_drawn w' = uuids_drawn w"
    using n
    by (auto simp: New_def Let_def g i split: option.splits sum.splits prod.splits
        dest!: initHandlers_out)
  have q: "\<exists>evs. trace w' = trace w @ evs \<and>
            (\<forall>k x. CallSetSystemSetting k x \<notin> set evs) \<and> CallUuidNew \<notin> set evs"
    using n
    by (auto simp: New_def Let_def g i split: option.splits sum.splits prod.splits
        dest!: initHandlers_out)
  have k: "telemetryID (telemetry s) = v" if "r = Inr s" for s
    using n that
    by (auto simp: New_def Let_def g i telemetry_New_def RegisterTracker_def
        split: option.splits sum.splits prod.splits dest!: initHandlers_out)
  from d g t u q k show ?thesis by simp
qed


text \<open>The later run, with every collaborator succeeding, returns a server.\<close>

lemma New_later_run:
  "\<not> isl (fst (New an_env a_config [] later_world))"
  by (simp add: New_def Let_def an_env_def a_config_def later_world_def empty_store_def
      GetSystemSettings_def Query_def Scan_def settings_table_def init_telemetryID_def
      initHandlers_def emit_def)

theorem New_keeps_TelemetryID_witness:
  "GetSystemSettings ((db later_world)\<lparr>tablePrefix := DBTablePrefix a_config\<rparr>)
     = Inr [''TelemetryID'' \<mapsto> ''uuid-0''] \<and>
   tables (db (snd (New an_env a_config [] later_world))) = tables (db later_world) \<and>
   uuids_drawn (snd (New an_env a_config [] later_world)) = uuids_drawn later_world \<and>
   (\<exists>evs. trace (snd (New an_env a_config [] later_world)) = trace later_world @ evs \<and>
      (\<forall>k x. CallSetSystemSetting k x \<notin> set evs) \<and> CallUuidNew \<notin> set evs) \<and>
   (\<exists>s. fst (New an_env a_config [] later_world) = Inr s \<and>
        telemetryID (telemetry s) = ''uuid-0'')"
proof -
  obtain r w' where h: "New an_env a_config [] later_world = (r, w')"
    by (cases "New an_env a_config [] later_world")
  have g: "GetSystemSettings ((db later_world)\<lparr>tablePrefix := DBTablePrefix a_config\<rparr>)
     = Inr [''TelemetryID'' \<mapsto> ''uuid-0'']"
    by (simp add: later_world_def empty_store_def GetSystemSettings_def Query_def Scan_def
        settings_table_def)
  have v: "[''TelemetryID'' \<mapsto> ''uuid-0''] ''TelemetryID'' = Some ''uuid-0''" "''uuid-0'' \<noteq> []"
    by simp_all
  from New_later_run h obtain s where r: "r = Inr s"
    by (cases r) auto
  from New_keeps_TelemetryID [OF g v h] g r show ?thesis
    unfolding h by simp
qed

text \<open>
  Claim C10, as stated, fails on its last part. For the server New returns on the later run
  (both handles nil, Start never called), when the stop of the public web server returns
  an error, Shutdown returns that error at once: the only call is the web server stop, and
  neither the telemetry stop nor the store shutdown is made.
\<close>

theorem Shutdown_without_Start_stop_fails:
  "\<not> isl (fst (New an_env a_config [] later_world)) \<and>
   cleanUpSessionsTask (projr (fst (New an_env a_config [] later_world))) = None \<and>
   localModeServer (projr (fst (New an_env a_config [] later_world))) = None \<and>
   fst (Shutdown (an_env\<lparr>webServer_Shutdown := Some (ErrExternal ''stop failed'')\<rparr>)
          (projr (fst (New an_env a_config [] later_world)))
          (snd (New an_env a_config [] later_world))) = Some (ErrExternal ''stop failed'') \<and>
   added (snd (New an_env a_config [] later_world))
     (snd (snd (Shutdown (an_env\<lparr>webServer_Shutdown := Some (ErrExternal ''stop failed'')\<rparr>)
                  (projr (fst (New an_env a_config [] later_world)))
                  (snd (New an_env a_config [] later_world))))) = [CallWebServerShutdown] \<and>
   CallTelemetryShutdown \<notin>
     set (added (snd (New an_env a_config [] later_world))
       (snd (snd (Shutdown (an_env\<lparr>webServer_Shutdown := Some (ErrExternal ''stop failed'')\<rparr>)
                    (projr (fst (New an_env a_config [] later_world)))
                    (snd (New an_env a_config [] later_world)))))) \<and>
   CallStoreShutdown \<notin>
     set (added (snd (New an_env a_config [] later_world))
       (snd (snd (Shutdown (an_env\<lparr>webServer_Shutdown := Some (ErrExternal ''stop failed'')\<rparr>)
                    (projr (fst (New an_env a_config [] later_world)))
                    (snd (New an_env a_config [] later_world))))))"
proof -
  obtain r w1 where h: "New an_env a_config [] later_world = (r, w1)"
    by (cases "New an_env a_config [] later_world")
  from New_later_run h obtain s where r: "r = Inr s"
    by (cases r) auto
  have n: "cleanUpSessionsTask s = None \<and> localModeServer s = None"
    by (rule New_server_handles [OF h [unfolded r]])
  have f: "webServer_Shutdown (an_env\<lparr>webServer_Shutdown := Some (ErrExternal ''stop failed'')\<rparr>)
             = Some (ErrExternal ''stop failed'')"
    by simp
  show ?thesis
    unfolding h r using n by (simp add: Shutdown_failed [OF f])
qed

text \<open>
  Claim C10, amended. For a server returned by New on which Start was not called, the task
  handle and the local-server handle are both nil, and Shutdown returns normally without
  cancelling a task or closing a local server: both guarded steps are skipped. When the
  stop of the public web server returns nil, the telemetry stop and the store shutdown are
  still called, in this order, the server is unchanged and the result is the store's.
\<close>

theorem Shutdown_without_Start:
  assumes n: "New e cfg tok w = (Inr s, w1)"
      and d: "Shutdown e' s w1 = (r, s', w2)"
  shows "cleanUpSessionsTask s = None \<and> localModeServer s = None \<and>
         CallLocalServerClose \<notin> set (added w1 w2) \<and>
         (\<forall>name. CallTaskCancel name \<notin> set (added w1 w2)) \<and>
         (webServer_Shutdown e' = None \<longrightarrow>
            r = store_Shutdown e' \<and> s' = s \<and>
            added w1 w2 =
              [CallWebServerShutdown, CallTelemetryShutdown, CallStoreShutdown,
               LoggerInfo ''Server.Shutdown''])"
proof -
  have h: "cleanUpSessionsTask s = None" "localModeServer s = None"
    using New_server_handles [OF n] by simp_all
  show ?thesis
  proof (cases "webServer_Shutdown e'")
    case (Some err)
    from Shutdown_failed [OF Some, of s w1] d
    have "w2 = emit CallWebServerShutdown w1" by simp
    then have "added w1 w2 = [CallWebServerShutdown]" by simp
    with h Some show ?thesis by simp
  next
    case None
    have a: "added w1 w2 =
        [CallWebServerShutdown, CallTelemetryShutdown, CallStoreShutdown,
         LoggerInfo ''Server.Shutdown'']"
      using Shutdown_added [OF None, of w1 s] d h by simp
    have "r = store_Shutdown e' \<and> s' = s"
      using d None h by (simp add: Shutdown_def stopLocalModeServer_def Let_def)
    with a h show ?thesis by simp
  qed
qed

theorem Shutdown_without_Start_witness:
  "(\<exists>s. fst (New an_env a_config [] later_world) = Inr s \<and>
        cleanUpSessionsTask s = None \<and> localModeServer s = None \<and>
        fst (Shutdown an_env s (snd (New an_env a_config [] later_world))) = None \<and>
        added (snd (New an_env a_config [] later_world))
          (snd (snd (Shutdown an_env s (snd (New an_env a_config [] later_world))))) =
          [CallWebServerShutdown, CallTelemetryShutdown, CallStoreShutdown,
           LoggerInfo ''Server.Shutdown''])"
proof -
  obtain r w1 where h: "New an_env a_config [] later_world = (r, w1)"
    by (cases "New an_env a_config [] later_world")
  from New_later_run h obtain s where r: "r = Inr s"
    by (cases r) auto
  obtain r2 s2 w2 where d: "Shutdown an_env s w1 = (r2, s2, w2)"
    by (rule prod_cases3)
  have e: "webServer_Shutdown an_env = None" "store_Shutdown an_env = None"
    by (simp_all add: an_env_def)
  from Shutdown_without_Start [OF h [unfolded r] d] e show ?thesis
    unfolding h r by (simp add: d)
qed

text \<open>
  Claim C1 fails on a first run. On the empty settings table, with \<open>uuid.New()\<close> handing
  out \<open>uuid-A\<close> and then \<open>uuid-B\<close>, New succeeds having drawn two identifiers: the
  telemetry service is given \<open>uuid-A\<close> and the settings table holds \<open>uuid-B\<close>.
\<close>

theorem New_first_run_two_identifiers:
  "(\<exists>s. fst (New an_env a_config [] fresh_world) = Inr s \<and>
        telemetryID (telemetry s) = ''uuid-A'') \<and>
   tables (db (snd (New an_env a_config [] fresh_world))) ''system_settings''
     = [(''TelemetryID'', ''uuid-B'')] \<and>
   uuids_drawn (snd (New an_env a_config [] fresh_world)) = 2 \<and>
   trace (snd (New an_env a_config [] fresh_world)) =
     [CallGetRootWorkspace, CallUuidNew, CallUuidNew,
      CallSetSystemSetting ''TelemetryID'' ''uuid-B'']"
  by (simp add: New_def Let_def an_env_def a_config_def fresh_world_def empty_store_def
      GetSystemSettings_def Query_def Scan_def settings_table_def init_telemetryID_def
      uuid_New_String_def SetSystemSetting_def Exec_insert_def
      initHandlers_def emit_def telemetry_New_def RegisterTracker_def)

text \<open>
  Claim C2 fails. With GetRootWorkspace failing and every other step succeeding, New
  returns a server and no error.
\<close>

theorem New_drops_GetRootWorkspace_error:
  "GetRootWorkspace (an_env\<lparr>GetRootWorkspace := Some (ErrExternal ''no root workspace'')\<rparr>)
     = Some (ErrExternal ''no root workspace'') \<and>
   \<not> isl (fst (New (an_env\<lparr>GetRootWorkspace := Some (ErrExternal ''no root workspace'')\<rparr>)
                  a_config [] later_world))"
  by (simp add: New_ignores_GetRootWorkspace New_later_run)

end
